theory Spec2Isabelle
  imports Complex_Main "HOL-Library.Product_Lexorder"
begin

section \<open>Data model of the attendance backend\<close>

text \<open>
  The development embeds \<^verbatim>\<open>backend/controllers/studentController.js\<close>: the three
  request handlers \<^verbatim>\<open>fetchNotifications\<close>, \<^verbatim>\<open>submitAttendance\<close> and
  \<^verbatim>\<open>getAttendanceHistory\<close>.

  Conventions of the embedding.
  \<^item> An instant (a JavaScript \<^verbatim>\<open>Date\<close>, a moment) is its number of milliseconds since
    the epoch, an \<open>int\<close>.
  \<^item> A calendar date string \<^verbatim>\<open>'YYYY-MM-DD'\<close> is the number of that day counted from
    1970-01-01; a time-of-day string \<^verbatim>\<open>'HH:mm'\<close> is the pair (hours, minutes). Formatting
    and parsing these strings is done by the Date and moment libraries, which are not part
    of the repository.
  \<^item> A time zone is a fixed offset in milliseconds east of UTC (no daylight saving
    transitions). \<^verbatim>\<open>Asia/Kolkata\<close> is UTC+05:30.
  \<^item> JavaScript numbers that carry coordinates, distances, radii and quotients of
    millisecond differences are reals; NaN and the rounding of doubles are outside the
    model.
  \<^item> Strings are byte strings; trimming and lower-casing are modelled on ASCII.
  \<^item> A collection of the store is the list of its documents in natural order;
    \<^verbatim>\<open>findOne\<close> is \<^const>\<open>find\<close> (the first match). Faults of the store, which the
    handlers turn into a 500 response, are outside the model.
\<close>

type_synonym instant = int
type_synonym hhmm = "nat \<times> nat"

definition msPerMinute :: int where
  "msPerMinute = 60000"

definition msPerHour :: int where
  "msPerHour = 3600000"

definition msPerDay :: int where
  "msPerDay = 86400000"

definition kolkata :: int where
  \<comment> \<open>the offset of \<^verbatim>\<open>'Asia/Kolkata'\<close>, five and a half hours\<close>
  "kolkata = 19800000"

text \<open>
  Modelled from the spec: the Mongoose schemas \<^verbatim>\<open>models/Student\<close>,
  \<^verbatim>\<open>models/CreateClass\<close>, \<^verbatim>\<open>models/AddClass\<close> and \<^verbatim>\<open>models/Attendance\<close> are
  not among the sources. The records below carry the fields the controller reads and
  writes, typed as the spec's data model describes them.
\<close>

record student =
  s_rollNumber :: string
  s_name :: string
  s_year :: nat
  s_department :: string

record scheduledClass =
  c_className :: string
  c_subject :: string
  c_teacherName :: string
  c_date :: int
  c_day :: string
  c_startTime :: hhmm
  c_endTime :: hhmm
  c_classCode :: string
  c_year :: string
  c_branch :: string

record classLocation =
  g_className :: string
  g_latitude :: real
  g_longitude :: real
  g_radius :: real
  g_beaconId :: "string option"

record attendanceRecord =
  a_id :: nat
  a_rollNumber :: string
  a_className :: string
  a_subject :: string
  a_classCode :: string
  a_status :: string
  a_time :: instant

record store =
  students :: "student list"
  createClasses :: "scheduledClass list"
  addClasses :: "classLocation list"
  attendances :: "attendanceRecord list"

text \<open>
  What a handler reads from outside the store: the clock, the server's local time zone,
  and the library functions \<^verbatim>\<open>haversine\<close> (package haversine-distance) and
  \<^verbatim>\<open>RegExp\<close>, taken as parameters. \<open>regexTest e src s\<close> stands for the match of the
  case-insensitive regular expression with source \<open>src\<close> against \<open>s\<close>. \<open>now\<close> is the
  clock read at the start of a handler; \<open>startClock\<close> is the second clock read of
  \<^verbatim>\<open>submitAttendance\<close> (\<^verbatim>\<open>const classStartTime = new Date()\<close>); \<open>newId\<close> is the
  identifier given to a saved attendance document.
\<close>

record env =
  now :: instant
  startClock :: instant
  localZone :: int
  haversine :: "real \<times> real \<Rightarrow> real \<times> real \<Rightarrow> real"
  regexTest :: "string \<Rightarrow> string \<Rightarrow> bool"
  newId :: nat

section \<open>Library behaviour used by the handlers\<close>

definition startOfDay :: "int \<Rightarrow> instant \<Rightarrow> instant" where
  \<comment> \<open>midnight, in the zone with offset \<open>z\<close>, of the day that holds \<open>t\<close>\<close>
  "startOfDay z t = t - (t + z) mod msPerDay"

definition dayOf :: "int \<Rightarrow> instant \<Rightarrow> int" where
  \<comment> \<open>the calendar date of \<open>t\<close> in the zone with offset \<open>z\<close>\<close>
  "dayOf z t = (t + z) div msPerDay"

definition atZone :: "int \<Rightarrow> int \<Rightarrow> hhmm \<Rightarrow> instant" where
  \<comment> \<open>\<^verbatim>\<open>moment.tz(`${date} ${time}`, 'YYYY-MM-DD HH:mm', zone)\<close>\<close>
  "atZone z d hm = d * msPerDay + int (fst hm) * msPerHour + int (snd hm) * msPerMinute - z"

definition setHours :: "int \<Rightarrow> instant \<Rightarrow> nat \<Rightarrow> nat \<Rightarrow> instant" where
  \<comment> \<open>\<^verbatim>\<open>t.setHours(h, m, 0, 0)\<close> in the local zone with offset \<open>z\<close>\<close>
  "setHours z t h m = startOfDay z t + int h * msPerHour + int m * msPerMinute"

definition absFloorDiv :: "int \<Rightarrow> int \<Rightarrow> int" where
  \<comment> \<open>moment's \<^verbatim>\<open>absFloor\<close> of a quotient: rounding towards zero\<close>
  "absFloorDiv a b = (if a < 0 then - ((- a) div b) else a div b)"

definition diffMinutes :: "instant \<Rightarrow> instant \<Rightarrow> int" where
  \<comment> \<open>\<^verbatim>\<open>a.diff(b, 'minutes')\<close>\<close>
  "diffMinutes a b = absFloorDiv (a - b) msPerMinute"

definition isSpace :: "char \<Rightarrow> bool" where
  "isSpace c = (c \<in> {CHR 0x09, CHR 0x0A, CHR 0x0B, CHR 0x0C, CHR 0x0D, CHR '' ''})"

definition trim :: "string \<Rightarrow> string" where
  "trim s = rev (dropWhile isSpace (rev (dropWhile isSpace s)))"

definition lowerChar :: "char \<Rightarrow> char" where
  "lowerChar c =
     (let n = (of_char c :: nat) in if 65 \<le> n \<and> n \<le> 90 then char_of (n + 32) else c)"

definition toLowerCase :: "string \<Rightarrow> string" where
  "toLowerCase s = map lowerChar s"

definition digitChar :: "nat \<Rightarrow> char" where
  "digitChar n = char_of (48 + n)"

fun toString :: "nat \<Rightarrow> string" where
  "toString n = (if n < 10 then [digitChar n] else toString (n div 10) @ [digitChar (n mod 10)])"

declare toString.simps [simp del]

section \<open>Lookups in the store\<close>

definition findStudent :: "store \<Rightarrow> string \<Rightarrow> student option" where
  \<comment> \<open>\<^verbatim>\<open>Student.findOne({ rollNumber })\<close>\<close>
  "findStudent d rollNumber = find (\<lambda>s. s_rollNumber s = rollNumber) (students d)"

definition findClassByCode :: "store \<Rightarrow> string \<Rightarrow> scheduledClass option" where
  \<comment> \<open>\<^verbatim>\<open>CreateClass.findOne({ classCode })\<close>\<close>
  "findClassByCode d classCode = find (\<lambda>c. c_classCode c = classCode) (createClasses d)"

definition findLocation :: "env \<Rightarrow> store \<Rightarrow> string \<Rightarrow> classLocation option" where
  \<comment> \<open>\<^verbatim>\<open>AddClass.findOne({ className: new RegExp(`^${className}$`, 'i') })\<close>\<close>
  "findLocation e d className =
     find (\<lambda>g. regexTest e (''^'' @ className @ ''$'') (g_className g)) (addClasses d)"

section \<open>fetchNotifications\<close>

datatype status = Marked | Expired | Active | StartingSoon | Upcoming

record notification =
  n_className :: string
  n_subject :: string
  n_teacherName :: string
  n_date :: int
  n_startTime :: hhmm
  n_endTime :: hhmm
  n_day :: string
  n_status :: status
  n_minutesUntilStart :: int
  n_minutesRemaining :: int
  n_attendanceId :: "nat option"

record notificationsResponse =
  notifications :: "notification list"
  serverTime :: instant

datatype fetchError = FetchStudentNotFound

definition findAttendance ::
  "string \<Rightarrow> string \<Rightarrow> string \<Rightarrow> instant \<Rightarrow> instant \<Rightarrow> attendanceRecord list
    \<Rightarrow> attendanceRecord option" where
  \<comment> \<open>\<^verbatim>\<open>Attendance.findOne({ rollNumber, className, subject, time: { $gte: lo, $lt: hi } })\<close>\<close>
  "findAttendance r cn sj lo hi as =
     find (\<lambda>a. a_rollNumber a = r \<and> a_className a = cn \<and> a_subject a = sj
               \<and> lo \<le> a_time a \<and> a_time a < hi) as"

definition classDateOf :: "scheduledClass \<Rightarrow> instant" where
  "classDateOf classInfo = atZone kolkata (c_date classInfo) (c_startTime classInfo)"

definition classEndDateOf :: "scheduledClass \<Rightarrow> instant" where
  "classEndDateOf classInfo = atZone kolkata (c_date classInfo) (c_endTime classInfo)"

definition existingFor :: "store \<Rightarrow> string \<Rightarrow> scheduledClass \<Rightarrow> attendanceRecord option" where
  \<comment> \<open>the lookup between \<^verbatim>\<open>startOf('day')\<close> and \<^verbatim>\<open>endOf('day')\<close> of the class date\<close>
  "existingFor d rollNumber classInfo =
     findAttendance rollNumber (c_className classInfo) (c_subject classInfo)
       (startOfDay kolkata (classDateOf classInfo))
       (startOfDay kolkata (classDateOf classInfo) + msPerDay - 1)
       (attendances d)"

definition notificationOf :: "env \<Rightarrow> store \<Rightarrow> string \<Rightarrow> scheduledClass \<Rightarrow> notification" where
  \<comment> \<open>the function mapped over the classes of the day\<close>
  "notificationOf e d rollNumber classInfo =
     (let serverTime = now e;
          classDate = classDateOf classInfo;
          classEndDate = classEndDateOf classInfo;
          existingAttendance = existingFor d rollNumber classInfo;
          minutesUntilStart = diffMinutes classDate serverTime;
          minutesFromStart = diffMinutes serverTime classDate;
          isEnded = (serverTime > classEndDate);
          status =
            (if existingAttendance \<noteq> None then Marked
             else if isEnded then Expired
             else if minutesFromStart \<ge> 0 \<and> minutesFromStart \<le> 15 then Active
             else if minutesUntilStart \<le> 5 then StartingSoon
             else if minutesUntilStart > 5 then Upcoming
             else Expired)
      in \<lparr> n_className = c_className classInfo,
           n_subject = c_subject classInfo,
           n_teacherName = c_teacherName classInfo,
           n_date = c_date classInfo,
           n_startTime = c_startTime classInfo,
           n_endTime = c_endTime classInfo,
           n_day = c_day classInfo,
           n_status = status,
           n_minutesUntilStart = max 0 minutesUntilStart,
           n_minutesRemaining = (if status = Active then max 0 (15 - minutesFromStart) else 0),
           n_attendanceId = map_option a_id existingAttendance \<rparr>)"

definition formattedDateOf :: "env \<Rightarrow> int" where
  \<comment> \<open>\<^verbatim>\<open>moment().tz('Asia/Kolkata').format('YYYY-MM-DD')\<close>\<close>
  "formattedDateOf e = dayOf kolkata (now e)"

definition classesFor :: "env \<Rightarrow> store \<Rightarrow> student \<Rightarrow> scheduledClass list" where
  \<comment> \<open>\<^verbatim>\<open>CreateClass.find({ year, branch, date }).sort({ startTime: 1 })\<close>\<close>
  "classesFor e d st =
     sort_key c_startTime
       (filter (\<lambda>c. c_year c = toString (s_year st) \<and> c_branch c = s_department st
                    \<and> c_date c = formattedDateOf e)
          (createClasses d))"

definition fetchNotifications ::
  "env \<Rightarrow> store \<Rightarrow> string \<Rightarrow> fetchError + notificationsResponse" where
  "fetchNotifications e d rollNumber =
     (let serverTime = now e in
      case findStudent d rollNumber of
        None \<Rightarrow> Inl FetchStudentNotFound
      | Some st \<Rightarrow>
          (let classes = classesFor e d st;
               notifs = map (notificationOf e d rollNumber) classes;
               activeNotifications = filter (\<lambda>n. n_status n \<noteq> Expired) notifs
           in Inr \<lparr> notifications = activeNotifications, serverTime = serverTime \<rparr>))"

section \<open>submitAttendance\<close>

record beaconProximity =
  beaconId :: "string option"

record submission =
  rq_rollNumber :: string
  rq_className :: string
  rq_latitude :: real
  rq_longitude :: real
  rq_beaconProximity :: "beaconProximity option"
  rq_classCode :: string

datatype submitError =
    StudentNotFound
  | ClassNotFound
  | LocationNotFound
  | OutOfRange int real
  | Misconfigured
  | BeaconMismatch "string option" "string option"
  | CodeMismatch string
  | TooEarly int
  | WindowExpired int
  | AlreadyMarked

record submitDetails =
  d_className :: string
  d_subject :: string
  d_date :: int
  d_time :: instant

definition truthy :: "string option \<Rightarrow> bool" where
  \<comment> \<open>a string value that is neither missing nor empty\<close>
  "truthy v = (v \<noteq> None \<and> v \<noteq> Some [])"

definition normalizeId :: "string option \<Rightarrow> string option" where
  \<comment> \<open>\<^verbatim>\<open>v ? v.trim().toLowerCase() : null\<close>\<close>
  "normalizeId v = (if truthy v then map_option (\<lambda>s. toLowerCase (trim s)) v else None)"

definition receivedRaw :: "submission \<Rightarrow> string option" where
  \<comment> \<open>\<^verbatim>\<open>beaconProximity?.beaconId\<close>\<close>
  "receivedRaw rq = (case rq_beaconProximity rq of None \<Rightarrow> None | Some b \<Rightarrow> beaconId b)"

definition distanceOf :: "env \<Rightarrow> submission \<Rightarrow> classLocation \<Rightarrow> real" where
  \<comment> \<open>\<^verbatim>\<open>haversine(userLocation, classLocation)\<close>\<close>
  "distanceOf e rq geoData =
     haversine e (rq_latitude rq, rq_longitude rq) (g_latitude geoData, g_longitude geoData)"

definition todayOf :: "env \<Rightarrow> int" where
  \<comment> \<open>\<^verbatim>\<open>now.toISOString().split('T')[0]\<close>: the date in UTC\<close>
  "todayOf e = dayOf 0 (now e)"

definition classStartTimeOf :: "env \<Rightarrow> scheduledClass \<Rightarrow> instant" where
  \<comment> \<open>\<^verbatim>\<open>new Date()\<close> followed by \<^verbatim>\<open>setHours(startHour, startMinute, 0, 0)\<close>\<close>
  "classStartTimeOf e classDetails =
     setHours (localZone e) (startClock e)
       (fst (c_startTime classDetails)) (snd (c_startTime classDetails))"

definition attendanceWindowEndOf :: "env \<Rightarrow> scheduledClass \<Rightarrow> instant" where
  "attendanceWindowEndOf e classDetails = classStartTimeOf e classDetails + 15 * msPerMinute"

definition existingToday :: "env \<Rightarrow> store \<Rightarrow> submission \<Rightarrow> scheduledClass \<Rightarrow> attendanceRecord option" where
  "existingToday e d rq classDetails =
     findAttendance (rq_rollNumber rq) (c_className classDetails) (c_subject classDetails)
       (todayOf e * msPerDay) (todayOf e * msPerDay + msPerDay) (attendances d)"

definition newAttendance :: "env \<Rightarrow> submission \<Rightarrow> scheduledClass \<Rightarrow> attendanceRecord" where
  "newAttendance e rq classDetails =
     \<lparr> a_id = newId e,
       a_rollNumber = rq_rollNumber rq,
       a_className = c_className classDetails,
       a_subject = c_subject classDetails,
       a_classCode = c_classCode classDetails,
       a_status = ''Present'',
       a_time = now e \<rparr>"

definition submitAttendance ::
  "env \<Rightarrow> store \<Rightarrow> submission \<Rightarrow> store \<times> (submitError + submitDetails)" where
  "submitAttendance e d rq =
     (case findStudent d (rq_rollNumber rq) of
        None \<Rightarrow> (d, Inl StudentNotFound)
      | Some st \<Rightarrow>
     (case findClassByCode d (rq_classCode rq) of
        None \<Rightarrow> (d, Inl ClassNotFound)
      | Some classDetails \<Rightarrow>
     (case findLocation e d (rq_className rq) of
        None \<Rightarrow> (d, Inl LocationNotFound)
      | Some geoData \<Rightarrow>
     (let distance = distanceOf e rq geoData;
          expectedBeaconId = normalizeId (g_beaconId geoData);
          receivedBeaconId = normalizeId (receivedRaw rq)
      in
      if distance > g_radius geoData then
        (d, Inl (OutOfRange (round distance) (g_radius geoData)))
      else if \<not> truthy expectedBeaconId then
        (d, Inl Misconfigured)
      else if \<not> truthy receivedBeaconId \<or> receivedBeaconId \<noteq> expectedBeaconId then
        (d, Inl (BeaconMismatch (g_beaconId geoData) (receivedRaw rq)))
      else if rq_classCode rq \<noteq> c_classCode classDetails then
        (d, Inl (CodeMismatch (c_classCode classDetails)))
      else if now e < classStartTimeOf e classDetails then
        (d, Inl (TooEarly \<lceil>real_of_int (classStartTimeOf e classDetails - now e) / 60000\<rceil>))
      else if now e > attendanceWindowEndOf e classDetails then
        (d, Inl (WindowExpired
                   \<lfloor>real_of_int (now e - classStartTimeOf e classDetails) / 60000 - 15\<rfloor>))
      else
        (case existingToday e d rq classDetails of
           Some existingAttendance \<Rightarrow> (d, Inl AlreadyMarked)
         | None \<Rightarrow>
            (d\<lparr> attendances := attendances d @ [newAttendance e rq classDetails] \<rparr>,
             Inr \<lparr> d_className = c_className classDetails,
                   d_subject = c_subject classDetails,
                   d_date = todayOf e,
                   d_time = now e \<rparr>))))))"

section \<open>submitAttendance on the request body as it arrives\<close>

text \<open>
  The body of a request is parsed JSON, and \<^verbatim>\<open>submitAttendance\<close> uses its
  \<^verbatim>\<open>classCode\<close> as it arrives, whatever its type: the value is handed to
  \<^verbatim>\<open>CreateClass.findOne({ classCode })\<close> and later compared with the stored code by
  \<^verbatim>\<open>!==\<close>. \<open>submitAttendance\<close> above is the handler on the bodies whose class code
  is a string. \<open>submitAttendanceRaw\<close> is the same handler with the class code kept as
  sent: a string, a number, or the query object \<^verbatim>\<open>{"$ne": v}\<close> with \<open>v\<close> a string or
  null.

  Which class the lookup selects for such a value is decided by Mongoose, which is not
  part of the repository; it is the parameter \<open>q\<close>: \<open>q v s\<close> says that the filter value
  \<open>v\<close> selects a document whose stored class code is \<open>s\<close>. The strict inequality
  \<^verbatim>\<open>!==\<close> of a value and a stored string holds unless the value is that very string.
\<close>

datatype jsonCode = JString string | JNumber nat | JNotEqual "string option"

record rawSubmission =
  raw_rollNumber :: string
  raw_className :: string
  raw_latitude :: real
  raw_longitude :: real
  raw_beaconProximity :: "beaconProximity option"
  raw_classCode :: jsonCode

definition findClassByQuery ::
  "(jsonCode \<Rightarrow> string \<Rightarrow> bool) \<Rightarrow> store \<Rightarrow> jsonCode \<Rightarrow> scheduledClass option" where
  \<comment> \<open>\<^verbatim>\<open>CreateClass.findOne({ classCode })\<close> for a class code of any type\<close>
  "findClassByQuery q d classCode = find (\<lambda>c. q classCode (c_classCode c)) (createClasses d)"

definition typedOf :: "rawSubmission \<Rightarrow> string \<Rightarrow> submission" where
  \<comment> \<open>the body with the string \<open>s\<close> as its class code\<close>
  "typedOf b s =
     \<lparr> rq_rollNumber = raw_rollNumber b, rq_className = raw_className b,
       rq_latitude = raw_latitude b, rq_longitude = raw_longitude b,
       rq_beaconProximity = raw_beaconProximity b, rq_classCode = s \<rparr>"

definition submitAttendanceRaw ::
  "(jsonCode \<Rightarrow> string \<Rightarrow> bool) \<Rightarrow> env \<Rightarrow> store \<Rightarrow> rawSubmission
    \<Rightarrow> store \<times> (submitError + submitDetails)" where
  "submitAttendanceRaw q e d b =
     (case findStudent d (raw_rollNumber b) of
        None \<Rightarrow> (d, Inl StudentNotFound)
      | Some st \<Rightarrow>
     (case findClassByQuery q d (raw_classCode b) of
        None \<Rightarrow> (d, Inl ClassNotFound)
      | Some classDetails \<Rightarrow>
     (case findLocation e d (raw_className b) of
        None \<Rightarrow> (d, Inl LocationNotFound)
      | Some geoData \<Rightarrow>
     (let distance = haversine e (raw_latitude b, raw_longitude b)
                       (g_latitude geoData, g_longitude geoData);
          beaconIdSent = (case raw_beaconProximity b of None \<Rightarrow> None | Some p \<Rightarrow> beaconId p);
          expectedBeaconId = normalizeId (g_beaconId geoData);
          receivedBeaconId = normalizeId beaconIdSent
      in
      if distance > g_radius geoData then
        (d, Inl (OutOfRange (round distance) (g_radius geoData)))
      else if \<not> truthy expectedBeaconId then
        (d, Inl Misconfigured)
      else if \<not> truthy receivedBeaconId \<or> receivedBeaconId \<noteq> expectedBeaconId then
        (d, Inl (BeaconMismatch (g_beaconId geoData) beaconIdSent))
      else if raw_classCode b \<noteq> JString (c_classCode classDetails) then
        (d, Inl (CodeMismatch (c_classCode classDetails)))
      else if now e < classStartTimeOf e classDetails then
        (d, Inl (TooEarly \<lceil>real_of_int (classStartTimeOf e classDetails - now e) / 60000\<rceil>))
      else if now e > attendanceWindowEndOf e classDetails then
        (d, Inl (WindowExpired
                   \<lfloor>real_of_int (now e - classStartTimeOf e classDetails) / 60000 - 15\<rfloor>))
      else
        (case findAttendance (raw_rollNumber b) (c_className classDetails)
                (c_subject classDetails) (todayOf e * msPerDay)
                (todayOf e * msPerDay + msPerDay) (attendances d) of
           Some existingAttendance \<Rightarrow> (d, Inl AlreadyMarked)
         | None \<Rightarrow>
            (d\<lparr> attendances := attendances d
                  @ [\<lparr> a_id = newId e, a_rollNumber = raw_rollNumber b,
                       a_className = c_className classDetails,
                       a_subject = c_subject classDetails,
                       a_classCode = c_classCode classDetails,
                       a_status = ''Present'', a_time = now e \<rparr>] \<rparr>,
             Inr \<lparr> d_className = c_className classDetails,
                   d_subject = c_subject classDetails,
                   d_date = todayOf e,
                   d_time = now e \<rparr>))))))"

section \<open>getAttendanceHistory\<close>

record historyEntry =
  h_className :: string
  h_subject :: string
  h_status :: string
  h_date :: int
  h_time :: hhmm

definition formatRecord :: "env \<Rightarrow> attendanceRecord \<Rightarrow> historyEntry" where
  \<comment> \<open>the date and the hour and minute of the record's time, in the server's zone\<close>
  "formatRecord e r =
     \<lparr> h_className = a_className r,
       h_subject = a_subject r,
       h_status = a_status r,
       h_date = dayOf (localZone e) (a_time r),
       h_time = (nat (((a_time r + localZone e) mod msPerDay) div msPerHour),
                 nat ((((a_time r + localZone e) mod msPerDay) mod msPerHour) div msPerMinute)) \<rparr>"

definition getAttendanceHistory :: "env \<Rightarrow> store \<Rightarrow> string \<Rightarrow> fetchError + historyEntry list" where
  "getAttendanceHistory e d rollNumber =
     (case findStudent d rollNumber of
        None \<Rightarrow> Inl FetchStudentNotFound
      | Some st \<Rightarrow>
          Inr (map (formatRecord e)
                 (sort_key (\<lambda>r. - a_time r)
                    (filter (\<lambda>r. a_rollNumber r = rollNumber) (attendances d)))))"

section \<open>The service as a sequence of requests\<close>

datatype request =
    FetchNotifications string
  | SubmitAttendance submission
  | GetAttendanceHistory string

datatype response =
    NotificationsResult "fetchError + notificationsResponse"
  | SubmitResult "submitError + submitDetails"
  | HistoryResult "fetchError + historyEntry list"

fun handle :: "env \<Rightarrow> store \<Rightarrow> request \<Rightarrow> store \<times> response" where
  "handle e d (FetchNotifications rollNumber) =
     (d, NotificationsResult (fetchNotifications e d rollNumber))"
| "handle e d (SubmitAttendance rq) =
     (case submitAttendance e d rq of (d', r) \<Rightarrow> (d', SubmitResult r))"
| "handle e d (GetAttendanceHistory rollNumber) =
     (d, HistoryResult (getAttendanceHistory e d rollNumber))"

section \<open>The specification's words\<close>

text \<open>
  The definitions of this section are written from the specification, not from the code;
  the theorems compare the handlers with them.
\<close>

definition statusBySpec :: "bool \<Rightarrow> bool \<Rightarrow> int \<Rightarrow> int \<Rightarrow> status" where
  \<comment> \<open>the status of a class, by priority: the first condition that holds decides\<close>
  "statusBySpec hasRecord hasEnded minutesFromStart minutesUntilStart =
     (if hasRecord then Marked
      else if hasEnded then Expired
      else if 0 \<le> minutesFromStart \<and> minutesFromStart \<le> 15 then Active
      else if minutesUntilStart \<le> 5 then StartingSoon
      else if minutesUntilStart > 5 then Upcoming
      else Expired)"

definition beaconAccepted :: "submission \<Rightarrow> classLocation \<Rightarrow> bool" where
  \<comment> \<open>an expected identifier is configured, one was received, and they are equal once
      trimmed and lower-cased\<close>
  "beaconAccepted rq g =
     (truthy (normalizeId (g_beaconId g)) \<and> truthy (normalizeId (receivedRaw rq))
      \<and> normalizeId (receivedRaw rq) = normalizeId (g_beaconId g))"





definition recordKey :: "attendanceRecord \<Rightarrow> string \<times> string \<times> string \<times> int" where
  \<comment> \<open>student, class, subject and calendar day, the day taken in the reference zone of
      the specification, which is the zone \<^verbatim>\<open>fetchNotifications\<close> works in\<close>
  "recordKey a = (a_rollNumber a, a_className a, a_subject a, dayOf kolkata (a_time a))"

definition oneRecordPerDay :: "store \<Rightarrow> bool" where
  "oneRecordPerDay d = distinct (map recordKey (attendances d))"

fun run :: "store \<Rightarrow> (env \<times> request) list \<Rightarrow> store" where
  \<comment> \<open>sequential execution: each request is handled on the store its predecessor left\<close>
  "run d [] = d"
| "run d ((e, rqst) # rest) = run (fst (handle e d rqst)) rest"

section \<open>Example data\<close>

text \<open>
  A small store used to run the handlers on concrete inputs: one student, one class on
  2024-01-02 (day 19724) from 09:00 to 10:00, and the location of its room. The server
  of the example runs in the zone of Kolkata, and \<open>exNow\<close> is 09:10 there on that day
  (03:40 UTC).
\<close>

definition exStudent :: student where
  "exStudent = \<lparr> s_rollNumber = ''R1'', s_name = ''Asha'', s_year = 2, s_department = ''CSE'' \<rparr>"

definition exClass :: scheduledClass where
  "exClass = \<lparr> c_className = ''CS101'', c_subject = ''Algorithms'', c_teacherName = ''Rao'',
       c_date = 19724, c_day = ''Tuesday'', c_startTime = (9, 0), c_endTime = (10, 0),
       c_classCode = ''XK42'', c_year = ''2'', c_branch = ''CSE'' \<rparr>"

definition exLocation :: classLocation where
  "exLocation = \<lparr> g_className = ''CS101'', g_latitude = 13, g_longitude = 77, g_radius = 50,
       g_beaconId = Some '' ABC123 '' \<rparr>"

definition exStore :: store where
  "exStore = \<lparr> students = [exStudent], createClasses = [exClass], addClasses = [exLocation],
       attendances = [] \<rparr>"

definition exHaversine :: "real \<times> real \<Rightarrow> real \<times> real \<Rightarrow> real" where
  \<comment> \<open>a stand-in for the distance in metres, good enough for nearby points\<close>
  "exHaversine p q = 111000 * (\<bar>fst p - fst q\<bar> + \<bar>snd p - snd q\<bar>)"

definition exRegexTest :: "string \<Rightarrow> string \<Rightarrow> bool" where
  \<comment> \<open>the match of an anchored pattern without metacharacters\<close>
  "exRegexTest src s = (toLowerCase src = toLowerCase (''^'' @ s @ ''$''))"

definition exNow :: instant where
  "exNow = 1704166800000"

definition exEnv :: env where
  "exEnv = \<lparr> now = exNow, startClock = exNow, localZone = kolkata,
       haversine = exHaversine, regexTest = exRegexTest, newId = 1 \<rparr>"

definition exEnvAt :: "instant \<Rightarrow> env" where
  "exEnvAt t = exEnv\<lparr> now := t, startClock := t \<rparr>"

definition exSubmission :: submission where
  "exSubmission = \<lparr> rq_rollNumber = ''R1'', rq_className = ''cs101'', rq_latitude = 13,
       rq_longitude = 77, rq_beaconProximity = Some \<lparr> beaconId = Some ''abc123'' \<rparr>,
       rq_classCode = ''XK42'' \<rparr>"

definition exDawnClass :: scheduledClass where
  \<comment> \<open>the class of the example, held from 05:20 to 06:20\<close>
  "exDawnClass = exClass\<lparr> c_startTime := (5, 20), c_endTime := (6, 20) \<rparr>"

definition exDawnStore :: store where
  "exDawnStore = exStore\<lparr> createClasses := [exDawnClass] \<rparr>"

definition exCodeQuery :: "jsonCode \<Rightarrow> string \<Rightarrow> bool" where
  \<comment> \<open>what Mongoose selects by default for a path of type String: a string selects the
      equal code, a number is cast to its decimal string, and \<^verbatim>\<open>{"$ne": v}\<close> selects
      the codes other than \<open>v\<close> (every stored code, when \<open>v\<close> is null)\<close>
  "exCodeQuery v s =
     (case v of
        JString t \<Rightarrow> s = t
      | JNumber n \<Rightarrow> s = toString n
      | JNotEqual None \<Rightarrow> True
      | JNotEqual (Some t) \<Rightarrow> s \<noteq> t)"

definition exRawSubmission :: "jsonCode \<Rightarrow> rawSubmission" where
  \<comment> \<open>the submission of the example, with the class code \<open>v\<close> as sent\<close>
  "exRawSubmission v = \<lparr> raw_rollNumber = ''R1'', raw_className = ''cs101'', raw_latitude = 13,
       raw_longitude = 77, raw_beaconProximity = Some \<lparr> beaconId = Some ''abc123'' \<rparr>,
       raw_classCode = v \<rparr>"

definition exNumberStore :: store where
  \<comment> \<open>the store of the example, the class code being \<open>''123''\<close>\<close>
  "exNumberStore = exStore\<lparr> createClasses := [exClass\<lparr> c_classCode := ''123'' \<rparr>] \<rparr>"

section \<open>Minutes between two instants\<close>

lemma diffMinutes_between:
  assumes "k * msPerMinute \<le> a - b" and "a - b < (k + 1) * msPerMinute" and "0 \<le> k"
  shows "diffMinutes a b = k" and "diffMinutes b a = - k"
proof -
  have pos: "0 \<le> a - b" using assms by (simp add: msPerMinute_def)
  have q: "(a - b) div 60000 = k"
    using assms by (intro int_div_pos_eq[where r = "a - b - k * 60000"]) (auto simp: msPerMinute_def algebra_simps)
  show "diffMinutes a b = k"
    using pos q by (simp add: diffMinutes_def absFloorDiv_def msPerMinute_def)
  show "diffMinutes b a = - k"
  proof (cases "a - b = 0")
    case True
    then show ?thesis using q by (simp add: diffMinutes_def absFloorDiv_def msPerMinute_def)
  next
    case False
    then have "b - a < 0" using pos by simp
    moreover have "- (b - a) = a - b" by simp
    ultimately show ?thesis using q by (simp add: diffMinutes_def absFloorDiv_def msPerMinute_def)
  qed
qed

section \<open>submitAttendance, one gate after the other\<close>

lemma minutesUntil_eq: "\<lceil>real_of_int a / 60000\<rceil> = - ((- a) div msPerMinute)"
proof -
  have "\<lceil>real_of_int a / real_of_int 60000\<rceil> = - ((- a) div 60000)"
    by (rule ceiling_divide_eq_div)
  then show ?thesis by (simp add: msPerMinute_def)
qed

lemma minutesLate_eq: "\<lfloor>real_of_int a / 60000 - 15\<rfloor> = a div msPerMinute - 15"
proof -
  have "\<lfloor>real_of_int a / real_of_int 60000\<rfloor> = a div 60000"
    by (rule floor_divide_of_int_eq)
  moreover have "\<lfloor>real_of_int a / 60000 - 15\<rfloor> = \<lfloor>real_of_int a / 60000\<rfloor> - 15"
    by simp
  ultimately show ?thesis by (simp add: msPerMinute_def)
qed

lemma minutesFloor_eq: "\<lfloor>real_of_int a / 60000\<rfloor> = a div msPerMinute"
proof -
  have "\<lfloor>real_of_int a / real_of_int 60000\<rfloor> = a div 60000"
    by (rule floor_divide_of_int_eq)
  then show ?thesis by (simp add: msPerMinute_def)
qed

lemma findClassByCode_code:
  "findClassByCode d code = Some c \<Longrightarrow> c_classCode c = code"
  by (auto simp: findClassByCode_def find_Some_iff)

lemma submit_no_student:
  "findStudent d (rq_rollNumber rq) = None \<Longrightarrow> submitAttendance e d rq = (d, Inl StudentNotFound)"
  by (simp add: submitAttendance_def)

lemma submit_no_class:
  "findStudent d (rq_rollNumber rq) = Some st \<Longrightarrow> findClassByCode d (rq_classCode rq) = None
    \<Longrightarrow> submitAttendance e d rq = (d, Inl ClassNotFound)"
  by (simp add: submitAttendance_def)

lemma submit_no_location:
  "findStudent d (rq_rollNumber rq) = Some st \<Longrightarrow> findClassByCode d (rq_classCode rq) = Some c
    \<Longrightarrow> findLocation e d (rq_className rq) = None
    \<Longrightarrow> submitAttendance e d rq = (d, Inl LocationNotFound)"
  by (simp add: submitAttendance_def)

lemma submit_found:
  assumes "findStudent d (rq_rollNumber rq) = Some st"
    and "findClassByCode d (rq_classCode rq) = Some c"
    and "findLocation e d (rq_className rq) = Some g"
  shows "submitAttendance e d rq =
     (if distanceOf e rq g > g_radius g then
        (d, Inl (OutOfRange (round (distanceOf e rq g)) (g_radius g)))
      else if \<not> truthy (normalizeId (g_beaconId g)) then (d, Inl Misconfigured)
      else if \<not> beaconAccepted rq g then
        (d, Inl (BeaconMismatch (g_beaconId g) (receivedRaw rq)))
      else if now e < classStartTimeOf e c then
        (d, Inl (TooEarly (- ((now e - classStartTimeOf e c) div msPerMinute))))
      else if classStartTimeOf e c + 15 * msPerMinute < now e then
        (d, Inl (WindowExpired ((now e - classStartTimeOf e c) div msPerMinute - 15)))
      else if existingToday e d rq c \<noteq> None then (d, Inl AlreadyMarked)
      else
        (d\<lparr> attendances := attendances d @ [newAttendance e rq c] \<rparr>,
         Inr \<lparr> d_className = c_className c, d_subject = c_subject c,
               d_date = todayOf e, d_time = now e \<rparr>))"
proof -
  have code: "rq_classCode rq = c_classCode c"
    using assms(2) by (simp add: findClassByCode_code)
  show ?thesis
    using assms code
    by (auto simp: submitAttendance_def Let_def beaconAccepted_def attendanceWindowEndOf_def
        minutesUntil_eq minutesLate_eq minutesFloor_eq simp del: of_int_diff
        split: option.splits)
qed

lemma normalizeId_Some:
  "normalizeId (Some s) = (if s = [] then None else Some (toLowerCase (trim s)))"
  by (simp add: normalizeId_def truthy_def)

lemma normalizeId_None: "normalizeId None = None"
  by (simp add: normalizeId_def truthy_def)

lemma submit_failure_keeps_store:
  assumes "snd (submitAttendance e d rq) = Inl err"
  shows "fst (submitAttendance e d rq) = d"
proof (cases "findStudent d (rq_rollNumber rq)")
  case None
  then show ?thesis by (simp add: submit_no_student)
next
  case st: (Some st)
  show ?thesis
  proof (cases "findClassByCode d (rq_classCode rq)")
    case None
    then show ?thesis using st by (simp add: submit_no_class)
  next
    case c: (Some c)
    show ?thesis
    proof (cases "findLocation e d (rq_className rq)")
      case None
      then show ?thesis using st c by (simp add: submit_no_location)
    next
      case g: (Some g)
      show ?thesis
        using assms by (simp add: submit_found[OF st c g] split: if_splits)
    qed
  qed
qed

lemma startOfDay_dayOf: "startOfDay z t = dayOf z t * msPerDay - z"
proof -
  have "(t + z) div msPerDay * msPerDay + (t + z) mod msPerDay = t + z"
    by simp
  then show ?thesis
    by (simp add: startOfDay_def dayOf_def algebra_simps)
qed

lemma submit_in_window:
  assumes st: "findStudent d (rq_rollNumber rq) = Some st"
    and c: "findClassByCode d (rq_classCode rq) = Some c"
    and g: "findLocation e d (rq_className rq) = Some g"
    and near: "\<not> distanceOf e rq g > g_radius g"
    and acc: "beaconAccepted rq g"
  shows "submitAttendance e d rq =
     (if now e < classStartTimeOf e c then
        (d, Inl (TooEarly (- ((now e - classStartTimeOf e c) div msPerMinute))))
      else if classStartTimeOf e c + 15 * msPerMinute < now e then
        (d, Inl (WindowExpired ((now e - classStartTimeOf e c) div msPerMinute - 15)))
      else if existingToday e d rq c \<noteq> None then (d, Inl AlreadyMarked)
      else
        (d\<lparr> attendances := attendances d @ [newAttendance e rq c] \<rparr>,
         Inr \<lparr> d_className = c_className c, d_subject = c_subject c,
               d_date = todayOf e, d_time = now e \<rparr>))"
proof -
  have "truthy (normalizeId (g_beaconId g))"
    using acc by (simp add: beaconAccepted_def)
  then show ?thesis
    using near acc by (simp add: submit_found[OF st c g])
qed

lemma find_redated_list:
  "find (\<lambda>c. c_classCode c = code) (map (c_date_update f) cs)
     = map_option (c_date_update f) (find (\<lambda>c. c_classCode c = code) cs)"
  by (induction cs) simp_all

lemma find_redated:
  "findClassByCode (d\<lparr> createClasses := map (c_date_update f) (createClasses d) \<rparr>) code
     = map_option (c_date_update f) (findClassByCode d code)"
  by (simp add: findClassByCode_def find_redated_list)

lemma redated_same:
  "findStudent (d\<lparr> createClasses := cs \<rparr>) r = findStudent d r"
  "findLocation e (d\<lparr> createClasses := cs \<rparr>) n = findLocation e d n"
  "existingToday e (d\<lparr> createClasses := cs \<rparr>) rq c = existingToday e d rq c"
  "classStartTimeOf e (c_date_update f c) = classStartTimeOf e c"
  "existingToday e d rq (c_date_update f c) = existingToday e d rq c"
  "newAttendance e rq (c_date_update f c) = newAttendance e rq c"
  by (simp_all add: findStudent_def findLocation_def existingToday_def classStartTimeOf_def
      newAttendance_def)

lemma submit_redated:
  "snd (submitAttendance e (d\<lparr> createClasses := map (c_date_update f) (createClasses d) \<rparr>) rq)
     = snd (submitAttendance e d rq)
   \<and> attendances (fst (submitAttendance e
         (d\<lparr> createClasses := map (c_date_update f) (createClasses d) \<rparr>) rq))
     = attendances (fst (submitAttendance e d rq))"
proof -
  let ?d = "d\<lparr> createClasses := map (c_date_update f) (createClasses d) \<rparr>"
  show ?thesis
  proof (cases "findStudent d (rq_rollNumber rq)")
    case None
    then have "findStudent ?d (rq_rollNumber rq) = None" by (simp add: redated_same)
    with None show ?thesis by (simp add: submit_no_student)
  next
    case st: (Some st)
    then have st': "findStudent ?d (rq_rollNumber rq) = Some st" by (simp add: redated_same)
    show ?thesis
    proof (cases "findClassByCode d (rq_classCode rq)")
      case None
      then have "findClassByCode ?d (rq_classCode rq) = None" by (simp add: find_redated)
      with None st st' show ?thesis by (simp add: submit_no_class)
    next
      case c: (Some c)
      then have c': "findClassByCode ?d (rq_classCode rq) = Some (c_date_update f c)"
        by (simp add: find_redated)
      show ?thesis
      proof (cases "findLocation e d (rq_className rq)")
        case None
        then have "findLocation e ?d (rq_className rq) = None" by (simp add: redated_same)
        with None st st' c c' show ?thesis by (simp add: submit_no_location)
      next
        case g: (Some g)
        then have g': "findLocation e ?d (rq_className rq) = Some g" by (simp add: redated_same)
        show ?thesis
          by (simp add: submit_found[OF st c g] submit_found[OF st' c' g'] redated_same)
      qed
    qed
  qed
qed

section \<open>The handler on the request body as it arrives\<close>

lemma typed_never_code_mismatch:
  "snd (submitAttendance e d rq) \<noteq> Inl (CodeMismatch x)"
proof (cases "findStudent d (rq_rollNumber rq)")
  case None
  then show ?thesis by (simp add: submit_no_student)
next
  case st: (Some st)
  show ?thesis
  proof (cases "findClassByCode d (rq_classCode rq)")
    case None
    then show ?thesis using st by (simp add: submit_no_class)
  next
    case c: (Some c)
    show ?thesis
    proof (cases "findLocation e d (rq_className rq)")
      case None
      then show ?thesis using st c by (simp add: submit_no_location)
    next
      case g: (Some g)
      show ?thesis by (simp add: submit_found[OF st c g])
    qed
  qed
qed

lemma typedOf_simps:
  "rq_rollNumber (typedOf b s) = raw_rollNumber b"
  "rq_className (typedOf b s) = raw_className b"
  "rq_classCode (typedOf b s) = s"
  "distanceOf e (typedOf b s) g
     = haversine e (raw_latitude b, raw_longitude b) (g_latitude g, g_longitude g)"
  "receivedRaw (typedOf b s)
     = (case raw_beaconProximity b of None \<Rightarrow> None | Some p \<Rightarrow> beaconId p)"
  "existingToday e d (typedOf b s) c
     = findAttendance (raw_rollNumber b) (c_className c) (c_subject c) (todayOf e * msPerDay)
         (todayOf e * msPerDay + msPerDay) (attendances d)"
  "newAttendance e (typedOf b s) c
     = \<lparr> a_id = newId e, a_rollNumber = raw_rollNumber b, a_className = c_className c,
         a_subject = c_subject c, a_classCode = c_classCode c, a_status = ''Present'',
         a_time = now e \<rparr>"
  by (simp_all add: typedOf_def distanceOf_def receivedRaw_def existingToday_def
      newAttendance_def)

lemma findClassByQuery_exact:
  assumes "\<forall>t. q (JString s) t = (t = s)"
  shows "findClassByQuery q d (JString s) = findClassByCode d s"
  using assms by (simp add: findClassByQuery_def findClassByCode_def)

lemma raw_found:
  assumes st: "findStudent d (raw_rollNumber b) = Some st"
    and c: "findClassByQuery q d (raw_classCode b) = Some c"
    and g: "findLocation e d (raw_className b) = Some g"
  shows "submitAttendanceRaw q e d b =
     (if distanceOf e (typedOf b s) g > g_radius g then
        (d, Inl (OutOfRange (round (distanceOf e (typedOf b s) g)) (g_radius g)))
      else if \<not> truthy (normalizeId (g_beaconId g)) then (d, Inl Misconfigured)
      else if \<not> beaconAccepted (typedOf b s) g then
        (d, Inl (BeaconMismatch (g_beaconId g) (receivedRaw (typedOf b s))))
      else if raw_classCode b \<noteq> JString (c_classCode c) then
        (d, Inl (CodeMismatch (c_classCode c)))
      else if now e < classStartTimeOf e c then
        (d, Inl (TooEarly (- ((now e - classStartTimeOf e c) div msPerMinute))))
      else if classStartTimeOf e c + 15 * msPerMinute < now e then
        (d, Inl (WindowExpired ((now e - classStartTimeOf e c) div msPerMinute - 15)))
      else if existingToday e d (typedOf b s) c \<noteq> None then (d, Inl AlreadyMarked)
      else
        (d\<lparr> attendances := attendances d @ [newAttendance e (typedOf b s) c] \<rparr>,
         Inr \<lparr> d_className = c_className c, d_subject = c_subject c,
               d_date = todayOf e, d_time = now e \<rparr>))"
  using assms
  by (auto simp: submitAttendanceRaw_def Let_def beaconAccepted_def attendanceWindowEndOf_def
      typedOf_simps minutesUntil_eq minutesLate_eq minutesFloor_eq simp del: of_int_diff
      split: option.splits)

lemma raw_is_typed:
  assumes q: "\<forall>t. q (JString s) t = (t = s)" and b: "raw_classCode b = JString s"
  shows "submitAttendanceRaw q e d b = submitAttendance e d (typedOf b s)"
proof -
  let ?rq = "typedOf b s"
  have lk: "findClassByQuery q d (raw_classCode b) = findClassByCode d (rq_classCode ?rq)"
    using findClassByQuery_exact[of q s d] q b by (simp add: typedOf_simps)
  show ?thesis
  proof (cases "findStudent d (raw_rollNumber b)")
    case None
    then show ?thesis
      by (simp add: submit_no_student typedOf_simps submitAttendanceRaw_def)
  next
    case st: (Some st)
    then have st': "findStudent d (rq_rollNumber ?rq) = Some st" by (simp add: typedOf_simps)
    show ?thesis
    proof (cases "findClassByCode d (rq_classCode ?rq)")
      case None
      then show ?thesis using st st' lk
        by (simp add: submit_no_class submitAttendanceRaw_def)
    next
      case c: (Some c)
      then have c': "findClassByQuery q d (raw_classCode b) = Some c" using lk by simp
      have code: "raw_classCode b = JString (c_classCode c)"
        using findClassByCode_code[OF c] b by (simp add: typedOf_simps)
      show ?thesis
      proof (cases "findLocation e d (raw_className b)")
        case None
        then have "findLocation e d (rq_className ?rq) = None" by (simp add: typedOf_simps)
        with None st st' c c' show ?thesis
          by (simp add: submit_no_location submitAttendanceRaw_def)
      next
        case g: (Some g)
        then have g': "findLocation e d (rq_className ?rq) = Some g"
          by (simp add: typedOf_simps)
        show ?thesis
          using code by (simp add: raw_found[OF st c' g, of s] submit_found[OF st' c g'])
      qed
    qed
  qed
qed

lemma raw_mismatch:
  assumes c: "findClassByQuery q d (raw_classCode b) = Some c"
    and ne: "raw_classCode b \<noteq> JString (c_classCode c)"
  shows "fst (submitAttendanceRaw q e d b) = d"
    and "snd (submitAttendanceRaw q e d b) \<noteq> Inr ok"
proof -
  have "fst (submitAttendanceRaw q e d b) = d \<and> snd (submitAttendanceRaw q e d b) \<noteq> Inr ok"
  proof (cases "findStudent d (raw_rollNumber b)")
    case None
    then show ?thesis by (simp add: submitAttendanceRaw_def)
  next
    case st: (Some st)
    show ?thesis
    proof (cases "findLocation e d (raw_className b)")
      case None
      then show ?thesis using st c by (simp add: submitAttendanceRaw_def)
    next
      case g: (Some g)
      show ?thesis using ne by (simp add: raw_found[OF st c g, of "c_classCode c"])
    qed
  qed
  then show "fst (submitAttendanceRaw q e d b) = d"
    and "snd (submitAttendanceRaw q e d b) \<noteq> Inr ok" by simp_all
qed

section \<open>The handlers on the example data\<close>

lemma ex_lookups:
  "findStudent exStore (rq_rollNumber exSubmission) = Some exStudent"
  "findClassByCode exStore (rq_classCode exSubmission) = Some exClass"
  "findLocation (exEnvAt t) exStore (rq_className exSubmission) = Some exLocation"
  "\<not> distanceOf (exEnvAt t) exSubmission exLocation > g_radius exLocation"
  "beaconAccepted exSubmission exLocation"
  by code_simp+

lemma ex_times:
  "now (exEnvAt t) = t"
  "classStartTimeOf (exEnvAt 1704166200000) exClass = 1704166200000"
  "classStartTimeOf (exEnvAt 1704167100000) exClass = 1704166200000"
  "classStartTimeOf (exEnvAt 1704166199999) exClass = 1704166200000"
  "classStartTimeOf (exEnvAt 1704167101000) exClass = 1704166200000"
  by code_simp+

section \<open>The status of a class in fetchNotifications\<close>

text \<open>
  Claim C4. For a class processed by \<^verbatim>\<open>fetchNotifications\<close> the status is decided by
  priority, the first match winning: an attendance record exists: marked; now is after
  the end of the class: expired; the minutes since the start are between 0 and 15:
  active; the minutes until the start are at most 5: starting soon; they are more than
  5: upcoming. The minutes remaining are \<open>max 0 (15 - minutesFromStart)\<close> when the
  status is active and 0 otherwise. With no record and the class not ended, a class that
  starts in 3 minutes is starting soon, and a class that started 10 minutes ago is
  active with 5 minutes remaining.
\<close>

theorem C4_status_priority:
  fixes e d r c
  defines "n \<equiv> notificationOf e d r c"
    and "mfs \<equiv> diffMinutes (now e) (classDateOf c)"
    and "mus \<equiv> diffMinutes (classDateOf c) (now e)"
    and "marked \<equiv> existingFor d r c \<noteq> None"
    and "ended \<equiv> now e > classEndDateOf c"
  shows "n_status n = statusBySpec marked ended mfs mus
    \<and> (n_status n = Marked) = marked
    \<and> (n_status n = Expired) = (\<not> marked \<and> ended)
    \<and> (n_status n = Active) = (\<not> marked \<and> \<not> ended \<and> 0 \<le> mfs \<and> mfs \<le> 15)
    \<and> (n_status n = StartingSoon) = (\<not> marked \<and> \<not> ended \<and> \<not> (0 \<le> mfs \<and> mfs \<le> 15) \<and> mus \<le> 5)
    \<and> (n_status n = Upcoming) = (\<not> marked \<and> \<not> ended \<and> \<not> (0 \<le> mfs \<and> mfs \<le> 15) \<and> mus > 5)
    \<and> n_minutesRemaining n = (if n_status n = Active then max 0 (15 - mfs) else 0)
    \<and> (\<not> marked \<and> \<not> ended \<and> 3 * msPerMinute \<le> classDateOf c - now e
          \<and> classDateOf c - now e < 4 * msPerMinute \<longrightarrow> n_status n = StartingSoon)
    \<and> (\<not> marked \<and> \<not> ended \<and> 10 * msPerMinute \<le> now e - classDateOf c
          \<and> now e - classDateOf c < 11 * msPerMinute \<longrightarrow> n_status n = Active \<and> n_minutesRemaining n = 5)"
proof -
  have st: "n_status n = statusBySpec marked ended mfs mus"
    unfolding n_def mfs_def mus_def marked_def ended_def notificationOf_def Let_def statusBySpec_def
    by simp
  have rem: "n_minutesRemaining n = (if n_status n = Active then max 0 (15 - mfs) else 0)"
    unfolding n_def mfs_def notificationOf_def Let_def by simp
  have soon: "n_status n = StartingSoon"
    if "\<not> marked" "\<not> ended" "3 * msPerMinute \<le> classDateOf c - now e"
       "classDateOf c - now e < 4 * msPerMinute"
  proof -
    have "mus = 3" "mfs = - 3"
      unfolding mus_def mfs_def using diffMinutes_between[of 3 "classDateOf c" "now e"] that by simp_all
    then show ?thesis using st that by (simp add: statusBySpec_def)
  qed
  have act: "n_status n = Active \<and> n_minutesRemaining n = 5"
    if "\<not> marked" "\<not> ended" "10 * msPerMinute \<le> now e - classDateOf c"
       "now e - classDateOf c < 11 * msPerMinute"
  proof -
    have "mfs = 10"
      unfolding mfs_def using diffMinutes_between(1)[of 10 "now e" "classDateOf c"] that by simp
    then show ?thesis using st rem that by (simp add: statusBySpec_def)
  qed
  show ?thesis
    using st rem soon act by (auto simp: statusBySpec_def split: if_splits)
qed

theorem C4_status_priority_witness:
  "n_status (notificationOf (exEnvAt (exNow - 13 * msPerMinute)) exStore ''R1'' exClass) = StartingSoon
   \<and> n_status (notificationOf exEnv exStore ''R1'' exClass) = Active
   \<and> n_minutesRemaining (notificationOf exEnv exStore ''R1'' exClass) = 5"
proof -
  have a: "\<not> existingFor exStore ''R1'' exClass \<noteq> None" by code_simp
  have b1: "\<not> now (exEnvAt (exNow - 13 * msPerMinute)) > classEndDateOf exClass" by code_simp
  have c1: "3 * msPerMinute \<le> classDateOf exClass - now (exEnvAt (exNow - 13 * msPerMinute))" by code_simp
  have d1: "classDateOf exClass - now (exEnvAt (exNow - 13 * msPerMinute)) < 4 * msPerMinute" by code_simp
  have b2: "\<not> now exEnv > classEndDateOf exClass" by code_simp
  have c2: "10 * msPerMinute \<le> now exEnv - classDateOf exClass" by code_simp
  have d2: "now exEnv - classDateOf exClass < 11 * msPerMinute" by code_simp
  show ?thesis
    using C4_status_priority[of "exEnvAt (exNow - 13 * msPerMinute)" exStore "''R1''" exClass]
      C4_status_priority[of exEnv exStore "''R1''" exClass] a b1 c1 d1 b2 c2 d2
    by blast
qed

section \<open>The answer of fetchNotifications\<close>

text \<open>
  Claim C8. The notifications that \<^verbatim>\<open>fetchNotifications\<close> returns are those computed
  for the student's classes of the day with the expired ones dropped, so none of them
  has the status expired; the answer also carries the server time that the statuses were
  computed with.
\<close>

theorem C8_expired_dropped:
  assumes "fetchNotifications e d r = Inr resp"
  shows "Expired \<notin> n_status ` set (notifications resp)
    \<and> serverTime resp = now e
    \<and> (\<exists>st. findStudent d r = Some st
          \<and> notifications resp =
              filter (\<lambda>n. n_status n \<noteq> Expired) (map (notificationOf e d r) (classesFor e d st)))"
  using assms by (auto simp: fetchNotifications_def Let_def split: option.splits)

theorem C8_expired_dropped_witness:
  "fetchNotifications exEnv exStore ''R1''
     = Inr \<lparr> notifications = [notificationOf exEnv exStore ''R1'' exClass], serverTime = exNow \<rparr>
   \<and> Expired \<notin> n_status ` set [notificationOf exEnv exStore ''R1'' exClass]
   \<and> fetchNotifications (exEnvAt (exNow + 2 * msPerHour)) exStore ''R1''
     = Inr \<lparr> notifications = [], serverTime = exNow + 2 * msPerHour \<rparr>"
proof -
  have h: "fetchNotifications exEnv exStore ''R1''
     = Inr \<lparr> notifications = [notificationOf exEnv exStore ''R1'' exClass], serverTime = exNow \<rparr>"
    by code_simp
  have k: "fetchNotifications (exEnvAt (exNow + 2 * msPerHour)) exStore ''R1''
     = Inr \<lparr> notifications = [], serverTime = exNow + 2 * msPerHour \<rparr>"
    by code_simp
  show ?thesis using C8_expired_dropped[OF h] h k by simp
qed

section \<open>The order of the gates of submitAttendance\<close>



section \<open>The geofence gate\<close>

text \<open>
  Claim C5. When the distance between the submitted coordinates and the configured
  location of the class is strictly greater than the allowed radius, no attendance
  record is created and the request does not succeed; with the student and the class
  found, the answer is OutOfRange with the computed distance (rounded to whole metres,
  as \<^verbatim>\<open>Math.round\<close> does) and the allowed radius. A distance that is at most the
  radius passes the geofence gate: the answer is never OutOfRange.
\<close>

theorem C5_geofence:
  assumes g: "findLocation e d (rq_className rq) = Some g"
  shows "(distanceOf e rq g > g_radius g \<longrightarrow>
            fst (submitAttendance e d rq) = d
          \<and> (\<forall>ok. snd (submitAttendance e d rq) \<noteq> Inr ok)
          \<and> (findStudent d (rq_rollNumber rq) \<noteq> None
              \<and> findClassByCode d (rq_classCode rq) \<noteq> None \<longrightarrow>
              submitAttendance e d rq =
                (d, Inl (OutOfRange (round (distanceOf e rq g)) (g_radius g)))))
    \<and> (distanceOf e rq g \<le> g_radius g \<longrightarrow>
          (\<forall>x y. snd (submitAttendance e d rq) \<noteq> Inl (OutOfRange x y)))"
proof (cases "findStudent d (rq_rollNumber rq)")
  case None
  then show ?thesis by (simp add: submit_no_student)
next
  case st: (Some st)
  show ?thesis
  proof (cases "findClassByCode d (rq_classCode rq)")
    case None
    then show ?thesis using st by (simp add: submit_no_class)
  next
    case c: (Some c)
    show ?thesis using st c by (simp add: submit_found[OF st c g])
  qed
qed

theorem C5_geofence_witness:
  "submitAttendance exEnv exStore (exSubmission\<lparr> rq_longitude := 78 \<rparr>)
     = (exStore, Inl (OutOfRange 111000 50))
   \<and> (\<forall>x y. snd (submitAttendance exEnv exStore exSubmission) \<noteq> Inl (OutOfRange x y))"
proof -
  let ?far = "exSubmission\<lparr> rq_longitude := 78 \<rparr>"
  have g: "findLocation exEnv exStore (rq_className ?far) = Some exLocation"
    "findLocation exEnv exStore (rq_className exSubmission) = Some exLocation"
    by code_simp+
  have lk: "findStudent exStore (rq_rollNumber ?far) \<noteq> None"
    "findClassByCode exStore (rq_classCode ?far) \<noteq> None"
    by code_simp+
  have far: "distanceOf exEnv ?far exLocation > g_radius exLocation"
    "round (distanceOf exEnv ?far exLocation) = 111000" "g_radius exLocation = 50"
    by code_simp+
  have near: "distanceOf exEnv exSubmission exLocation \<le> g_radius exLocation"
    by code_simp
  show ?thesis
    using C5_geofence[OF g(1)] C5_geofence[OF g(2)] lk far near by simp
qed

section \<open>The beacon gate\<close>

text \<open>
  Claim C6. For a submission that reaches the beacon gate, the expected and the received
  beacon identifiers are compared after trimming and lower-casing, so that
  \<open>'' ABC123 ''\<close> and \<open>''abc123''\<close> match. With no expected identifier configured the
  answer is Misconfigured; with one configured, an absent received identifier or a
  different normalised identifier gives BeaconMismatch; equal normalised identifiers
  pass the gate.
\<close>

theorem C6_beacon_normalised:
  assumes st: "findStudent d (rq_rollNumber rq) = Some st"
    and c: "findClassByCode d (rq_classCode rq) = Some c"
    and g: "findLocation e d (rq_className rq) = Some g"
    and near: "\<not> distanceOf e rq g > g_radius g"
  shows "normalizeId (Some '' ABC123 '') = normalizeId (Some ''abc123'')
    \<and> truthy (normalizeId (Some ''abc123''))
    \<and> normalizeId (Some s) = (if s = [] then None else Some (toLowerCase (trim s)))
    \<and> (g_beaconId g = None \<or> \<not> truthy (normalizeId (g_beaconId g))
         \<longrightarrow> submitAttendance e d rq = (d, Inl Misconfigured))
    \<and> (truthy (normalizeId (g_beaconId g))
         \<and> (receivedRaw rq = None \<or> normalizeId (receivedRaw rq) \<noteq> normalizeId (g_beaconId g))
         \<longrightarrow> submitAttendance e d rq = (d, Inl (BeaconMismatch (g_beaconId g) (receivedRaw rq))))
    \<and> (truthy (normalizeId (g_beaconId g))
         \<and> normalizeId (receivedRaw rq) = normalizeId (g_beaconId g)
         \<longrightarrow> snd (submitAttendance e d rq) \<noteq> Inl Misconfigured
           \<and> (\<forall>x y. snd (submitAttendance e d rq) \<noteq> Inl (BeaconMismatch x y)))"
proof -
  have ex: "normalizeId (Some '' ABC123 '') = normalizeId (Some ''abc123'')"
    "truthy (normalizeId (Some ''abc123''))"
    by code_simp+
  have none: "\<not> truthy (normalizeId (g_beaconId g))" if "g_beaconId g = None"
    using that by (simp add: normalizeId_None truthy_def)
  have absent: "\<not> beaconAccepted rq g" if "receivedRaw rq = None"
    using that by (simp add: beaconAccepted_def normalizeId_None truthy_def)
  have acc: "beaconAccepted rq g"
    if "truthy (normalizeId (g_beaconId g))"
      "normalizeId (receivedRaw rq) = normalizeId (g_beaconId g)"
    using that by (simp add: beaconAccepted_def)
  have rej: "\<not> beaconAccepted rq g"
    if "normalizeId (receivedRaw rq) \<noteq> normalizeId (g_beaconId g)"
    using that by (simp add: beaconAccepted_def)
  have res: "submitAttendance e d rq =
      (if \<not> truthy (normalizeId (g_beaconId g)) then (d, Inl Misconfigured)
       else if \<not> beaconAccepted rq g
         then (d, Inl (BeaconMismatch (g_beaconId g) (receivedRaw rq)))
       else submitAttendance e d rq)"
    using near by (simp add: submit_found[OF st c g])
  have pass: "snd (submitAttendance e d rq) \<noteq> Inl Misconfigured
      \<and> (\<forall>x y. snd (submitAttendance e d rq) \<noteq> Inl (BeaconMismatch x y))"
    if "truthy (normalizeId (g_beaconId g))" "beaconAccepted rq g"
    using that near by (simp add: submit_found[OF st c g])
  have mis: "submitAttendance e d rq = (d, Inl Misconfigured)"
    if "\<not> truthy (normalizeId (g_beaconId g))"
    using that res by simp
  have mm: "submitAttendance e d rq = (d, Inl (BeaconMismatch (g_beaconId g) (receivedRaw rq)))"
    if "truthy (normalizeId (g_beaconId g))" "\<not> beaconAccepted rq g"
    using that res by simp
  show ?thesis
    using ex none absent acc rej pass mis mm normalizeId_Some[of s] by blast
qed

theorem C6_beacon_normalised_witness:
  "(\<forall>x y. snd (submitAttendance exEnv exStore exSubmission) \<noteq> Inl (BeaconMismatch x y))
   \<and> submitAttendance exEnv exStore (exSubmission\<lparr> rq_beaconProximity := None \<rparr>)
       = (exStore, Inl (BeaconMismatch (Some '' ABC123 '') None))
   \<and> submitAttendance exEnv (exStore\<lparr> addClasses := [exLocation\<lparr> g_beaconId := None \<rparr>] \<rparr>)
         exSubmission
       = (exStore\<lparr> addClasses := [exLocation\<lparr> g_beaconId := None \<rparr>] \<rparr>, Inl Misconfigured)"
proof -
  let ?noBeacon = "exSubmission\<lparr> rq_beaconProximity := None \<rparr>"
  let ?bare = "exLocation\<lparr> g_beaconId := None \<rparr>"
  let ?store = "exStore\<lparr> addClasses := [?bare] \<rparr>"
  have st: "findStudent exStore (rq_rollNumber exSubmission) = Some exStudent"
    "findStudent exStore (rq_rollNumber ?noBeacon) = Some exStudent"
    "findStudent ?store (rq_rollNumber exSubmission) = Some exStudent"
    by code_simp+
  have c: "findClassByCode exStore (rq_classCode exSubmission) = Some exClass"
    "findClassByCode exStore (rq_classCode ?noBeacon) = Some exClass"
    "findClassByCode ?store (rq_classCode exSubmission) = Some exClass"
    by code_simp+
  have g: "findLocation exEnv exStore (rq_className exSubmission) = Some exLocation"
    "findLocation exEnv exStore (rq_className ?noBeacon) = Some exLocation"
    "findLocation exEnv ?store (rq_className exSubmission) = Some ?bare"
    by code_simp+
  have near: "\<not> distanceOf exEnv exSubmission exLocation > g_radius exLocation"
    "\<not> distanceOf exEnv ?noBeacon exLocation > g_radius exLocation"
    "\<not> distanceOf exEnv exSubmission ?bare > g_radius ?bare"
    by code_simp+
  have b1: "truthy (normalizeId (g_beaconId exLocation))"
    "normalizeId (receivedRaw exSubmission) = normalizeId (g_beaconId exLocation)"
    by code_simp+
  have b2: "receivedRaw ?noBeacon = None" "g_beaconId exLocation = Some '' ABC123 ''"
    by code_simp+
  have b3: "g_beaconId ?bare = None"
    by code_simp
  show ?thesis
    using C6_beacon_normalised[OF st(1) c(1) g(1) near(1)]
      C6_beacon_normalised[OF st(2) c(2) g(2) near(2)]
      C6_beacon_normalised[OF st(3) c(3) g(3) near(3)] b1 b2 b3
    by simp
qed

section \<open>The comparison of the class codes\<close>

text \<open>
  Claim C9, as amended. For a request whose submitted class code is a string, the
  comparison of the class codes never fails: the class is found by an exact lookup on
  that string, so the stored code equals the submitted one and no such request is
  answered with CodeMismatch; on these requests \<open>submitAttendanceRaw\<close> is
  \<open>submitAttendance\<close>. The comparison does fail for a class code that is not a string
  and that the lookup nevertheless resolves to a class: then nothing is written, the
  request does not succeed, and once the student and the location are found and the
  geofence and the beacon are passed the answer is CodeMismatch with the stored code.
\<close>

theorem C9_code_mismatch_needs_non_string:
  "(\<forall>x. snd (submitAttendance e d rq) \<noteq> Inl (CodeMismatch x))
   \<and> ((\<forall>t. q (JString s) t = (t = s)) \<and> raw_classCode b = JString s \<longrightarrow>
         submitAttendanceRaw q e d b = submitAttendance e d (typedOf b s)
       \<and> (\<forall>x. snd (submitAttendanceRaw q e d b) \<noteq> Inl (CodeMismatch x)))
   \<and> (findClassByQuery q d (raw_classCode b) = Some c
        \<and> raw_classCode b \<noteq> JString (c_classCode c) \<longrightarrow>
         fst (submitAttendanceRaw q e d b) = d
       \<and> (\<forall>ok. snd (submitAttendanceRaw q e d b) \<noteq> Inr ok)
       \<and> (findStudent d (raw_rollNumber b) \<noteq> None
           \<and> findLocation e d (raw_className b) = Some g
           \<and> \<not> distanceOf e (typedOf b (c_classCode c)) g > g_radius g
           \<and> beaconAccepted (typedOf b (c_classCode c)) g \<longrightarrow>
           submitAttendanceRaw q e d b = (d, Inl (CodeMismatch (c_classCode c)))))"
proof -
  have typed: "\<forall>x. snd (submitAttendance e d rq) \<noteq> Inl (CodeMismatch x)"
    by (simp add: typed_never_code_mismatch)
  have strings: "submitAttendanceRaw q e d b = submitAttendance e d (typedOf b s)
       \<and> (\<forall>x. snd (submitAttendanceRaw q e d b) \<noteq> Inl (CodeMismatch x))"
    if "\<forall>t. q (JString s) t = (t = s)" "raw_classCode b = JString s"
    using raw_is_typed[of q s b e d] that by (simp add: typed_never_code_mismatch)
  have other: "submitAttendanceRaw q e d b = (d, Inl (CodeMismatch (c_classCode c)))"
    if c: "findClassByQuery q d (raw_classCode b) = Some c"
      and ne: "raw_classCode b \<noteq> JString (c_classCode c)"
      and st: "findStudent d (raw_rollNumber b) \<noteq> None"
      and g: "findLocation e d (raw_className b) = Some g"
      and near: "\<not> distanceOf e (typedOf b (c_classCode c)) g > g_radius g"
      and acc: "beaconAccepted (typedOf b (c_classCode c)) g"
  proof -
    from st obtain s' where s': "findStudent d (raw_rollNumber b) = Some s'" by blast
    have "truthy (normalizeId (g_beaconId g))" using acc by (simp add: beaconAccepted_def)
    then show ?thesis
      using ne near acc by (simp add: raw_found[OF s' c g, of "c_classCode c"])
  qed
  show ?thesis
    using typed strings raw_mismatch[of q d b c e] other by blast
qed

theorem C9_code_mismatch_needs_non_string_witness:
  "submitAttendanceRaw exCodeQuery exEnv exStore (exRawSubmission (JString ''XK42''))
     = submitAttendance exEnv exStore (typedOf (exRawSubmission (JString ''XK42'')) ''XK42'')
   \<and> submitAttendanceRaw exCodeQuery exEnv exNumberStore (exRawSubmission (JNumber 123))
     = (exNumberStore, Inl (CodeMismatch ''123''))"
proof -
  let ?b1 = "exRawSubmission (JString ''XK42'')"
  let ?b2 = "exRawSubmission (JNumber 123)"
  let ?c2 = "exClass\<lparr> c_classCode := ''123'' \<rparr>"
  have exact: "\<forall>t. exCodeQuery (JString ''XK42'') t = (t = ''XK42'')"
    by (simp add: exCodeQuery_def)
  have b1: "raw_classCode ?b1 = JString ''XK42''"
    by (simp add: exRawSubmission_def)
  have c2: "findClassByQuery exCodeQuery exNumberStore (raw_classCode ?b2) = Some ?c2"
    by code_simp
  have ne: "raw_classCode ?b2 \<noteq> JString (c_classCode ?c2)"
    by (simp add: exRawSubmission_def)
  have st: "findStudent exNumberStore (raw_rollNumber ?b2) \<noteq> None"
    by code_simp
  have g: "findLocation exEnv exNumberStore (raw_className ?b2) = Some exLocation"
    by code_simp
  have near: "\<not> distanceOf exEnv (typedOf ?b2 (c_classCode ?c2)) exLocation > g_radius exLocation"
    by code_simp
  have acc: "beaconAccepted (typedOf ?b2 (c_classCode ?c2)) exLocation"
    by code_simp
  have code: "c_classCode ?c2 = ''123''"
    by simp
  note t1 = C9_code_mismatch_needs_non_string[where q = exCodeQuery and s = "''XK42''"
      and b = ?b1 and e = exEnv and d = exStore]
  note t2 = C9_code_mismatch_needs_non_string[where q = exCodeQuery and b = ?b2
      and e = exEnv and d = exNumberStore and c = ?c2 and g = exLocation]
  have one: "submitAttendanceRaw exCodeQuery exEnv exStore ?b1
      = submitAttendance exEnv exStore (typedOf ?b1 ''XK42'')"
    using t1[THEN conjunct2, THEN conjunct1] exact b1 by blast
  have "submitAttendanceRaw exCodeQuery exEnv exNumberStore ?b2
      = (exNumberStore, Inl (CodeMismatch (c_classCode ?c2)))"
    using t2[THEN conjunct2, THEN conjunct2] c2 ne st g near acc by blast
  then have two: "submitAttendanceRaw exCodeQuery exEnv exNumberStore ?b2
      = (exNumberStore, Inl (CodeMismatch ''123''))"
    using code by simp
  show ?thesis using one two by (rule conjI)
qed

text \<open>
  The claim as it was stated, that no request is answered with CodeMismatch, fails on
  two bodies a client can send, under the default query semantics of Mongoose: the
  class code \<^verbatim>\<open>{"$ne": null}\<close>, which selects the first class, and the number
  \<^verbatim>\<open>123\<close>, which is cast to the stored code \<^verbatim>\<open>"123"\<close>. Neither value is the
  stored string, so line 173 answers 403 with the stored code.
\<close>

theorem C9_code_mismatch_reached:
  "submitAttendanceRaw exCodeQuery exEnv exStore (exRawSubmission (JNotEqual None))
     = (exStore, Inl (CodeMismatch ''XK42''))
   \<and> submitAttendanceRaw exCodeQuery exEnv exNumberStore (exRawSubmission (JNumber 123))
     = (exNumberStore, Inl (CodeMismatch ''123''))"
  by code_simp

section \<open>The attendance window\<close>

text \<open>
  Claim C3. For a submission that reaches the timing gate, the attendance window is
  closed at both ends. At the start instant of the class and at the start plus 15
  minutes the gate passes (the answer is neither TooEarly nor WindowExpired, and with no
  record of the day the submission succeeds). Strictly before the start the answer is
  TooEarly with the minutes until the start, rounded up. Strictly after the start plus
  15 minutes the answer is WindowExpired with the whole minutes since the start minus
  15; one second after the end of the window that is 0.
\<close>

theorem C3_window_inclusive:
  assumes st: "findStudent d (rq_rollNumber rq) = Some st"
    and c: "findClassByCode d (rq_classCode rq) = Some c"
    and g: "findLocation e d (rq_className rq) = Some g"
    and near: "\<not> distanceOf e rq g > g_radius g"
    and acc: "beaconAccepted rq g"
  shows "(now e < classStartTimeOf e c \<longrightarrow>
            submitAttendance e d rq =
              (d, Inl (TooEarly \<lceil>real_of_int (classStartTimeOf e c - now e) / 60000\<rceil>))
          \<and> \<lceil>real_of_int (classStartTimeOf e c - now e) / 60000\<rceil>
              = - ((now e - classStartTimeOf e c) div msPerMinute)
          \<and> 1 \<le> \<lceil>real_of_int (classStartTimeOf e c - now e) / 60000\<rceil>)
    \<and> (classStartTimeOf e c + 15 * msPerMinute < now e \<longrightarrow>
            submitAttendance e d rq =
              (d, Inl (WindowExpired ((now e - classStartTimeOf e c) div msPerMinute - 15)))
          \<and> 0 \<le> (now e - classStartTimeOf e c) div msPerMinute - 15)
    \<and> (classStartTimeOf e c \<le> now e \<and> now e \<le> classStartTimeOf e c + 15 * msPerMinute \<longrightarrow>
            (\<forall>k. snd (submitAttendance e d rq) \<noteq> Inl (TooEarly k))
          \<and> (\<forall>k. snd (submitAttendance e d rq) \<noteq> Inl (WindowExpired k))
          \<and> (existingToday e d rq c = None \<longrightarrow> (\<exists>ok. snd (submitAttendance e d rq) = Inr ok)))
    \<and> (now e = classStartTimeOf e c \<or> now e = classStartTimeOf e c + 15 * msPerMinute \<longrightarrow>
            (\<forall>k. snd (submitAttendance e d rq) \<noteq> Inl (TooEarly k))
          \<and> (\<forall>k. snd (submitAttendance e d rq) \<noteq> Inl (WindowExpired k)))
    \<and> (now e = classStartTimeOf e c + 15 * msPerMinute + 1000 \<longrightarrow>
            submitAttendance e d rq = (d, Inl (WindowExpired 0)))"
proof -
  note res = submit_in_window[OF st c g near acc]
  let ?S = "classStartTimeOf e c"
  have early: "submitAttendance e d rq = (d, Inl (TooEarly \<lceil>real_of_int (?S - now e) / 60000\<rceil>))
      \<and> \<lceil>real_of_int (?S - now e) / 60000\<rceil> = - ((now e - ?S) div msPerMinute)
      \<and> 1 \<le> \<lceil>real_of_int (?S - now e) / 60000\<rceil>"
    if "now e < ?S"
  proof -
    have eq: "\<lceil>real_of_int (?S - now e) / 60000\<rceil> = - ((now e - ?S) div msPerMinute)"
      using minutesUntil_eq[of "?S - now e"] by simp
    have "(now e - ?S) div msPerMinute < 0"
      using that by (simp add: msPerMinute_def div_neg_pos_less0)
    then show ?thesis using that res eq by simp
  qed
  have late: "submitAttendance e d rq =
        (d, Inl (WindowExpired ((now e - ?S) div msPerMinute - 15)))
      \<and> 0 \<le> (now e - ?S) div msPerMinute - 15"
    if "?S + 15 * msPerMinute < now e"
  proof -
    have "15 * msPerMinute \<le> now e - ?S" using that by simp
    then have "15 \<le> (now e - ?S) div msPerMinute"
      by (simp add: msPerMinute_def pos_imp_zdiv_nonneg_iff zdiv_mono1 [of 900000 _ 60000, simplified])
    moreover have "\<not> now e < ?S" using that by (simp add: msPerMinute_def)
    ultimately show ?thesis using that res by simp
  qed
  have inside: "(\<forall>k. snd (submitAttendance e d rq) \<noteq> Inl (TooEarly k))
      \<and> (\<forall>k. snd (submitAttendance e d rq) \<noteq> Inl (WindowExpired k))
      \<and> (existingToday e d rq c = None \<longrightarrow> (\<exists>ok. snd (submitAttendance e d rq) = Inr ok))"
    if "?S \<le> now e" "now e \<le> ?S + 15 * msPerMinute"
    using that res by simp
  have second: "submitAttendance e d rq = (d, Inl (WindowExpired 0))"
    if "now e = ?S + 15 * msPerMinute + 1000"
  proof -
    have "(now e - ?S) div msPerMinute = 15"
      using that by (simp add: msPerMinute_def)
    moreover have "?S + 15 * msPerMinute < now e" using that by simp
    ultimately show ?thesis using late by simp
  qed
  have bounds: "?S \<le> now e \<and> now e \<le> ?S + 15 * msPerMinute"
    if "now e = ?S \<or> now e = ?S + 15 * msPerMinute"
    using that by (auto simp: msPerMinute_def)
  show ?thesis
    using early late inside second bounds by blast
qed

theorem C3_window_inclusive_witness:
  "(\<exists>ok. snd (submitAttendance (exEnvAt 1704166200000) exStore exSubmission) = Inr ok)
   \<and> (\<exists>ok. snd (submitAttendance (exEnvAt 1704167100000) exStore exSubmission) = Inr ok)
   \<and> submitAttendance (exEnvAt 1704166199999) exStore exSubmission
       = (exStore, Inl (TooEarly 1))
   \<and> submitAttendance (exEnvAt 1704167101000) exStore exSubmission
       = (exStore, Inl (WindowExpired 0))"
proof -
  note w = C3_window_inclusive[OF ex_lookups(1) ex_lookups(2) ex_lookups(3) ex_lookups(4)
      ex_lookups(5)]
  have none: "existingToday e exStore exSubmission exClass = None" for e
    by (simp add: existingToday_def findAttendance_def exStore_def)
  have a: "\<exists>ok. snd (submitAttendance (exEnvAt 1704166200000) exStore exSubmission) = Inr ok"
    using w[of 1704166200000] none
    by (simp add: ex_times msPerMinute_def)
  have b: "\<exists>ok. snd (submitAttendance (exEnvAt 1704167100000) exStore exSubmission) = Inr ok"
    using w[of 1704167100000] none
    by (simp add: ex_times msPerMinute_def)
  have c: "submitAttendance (exEnvAt 1704166199999) exStore exSubmission
       = (exStore, Inl (TooEarly 1))"
    using w[of 1704166199999]
    by (simp add: ex_times msPerMinute_def)
  have d: "submitAttendance (exEnvAt 1704167101000) exStore exSubmission
       = (exStore, Inl (WindowExpired 0))"
    using w[of 1704167101000]
    by (simp add: ex_times msPerMinute_def)
  show ?thesis using a b c d by simp
qed

section \<open>The stored date of a class\<close>

text \<open>
  Claim C10. The timing gate takes the start instant of the class from the server's
  current calendar date and the stored start time of day. The stored date of the class
  is read neither by the lookup of the class nor by any gate: changing the stored dates
  changes neither the answer nor the records written. So a submission that passes the
  other gates is accepted on any day, when the time of day of \<open>now\<close> lies between the
  stored start time and 15 minutes after it.
\<close>

theorem C10_stored_date_ignored:
  "classStartTimeOf e c =
      dayOf (localZone e) (startClock e) * msPerDay - localZone e
        + int (fst (c_startTime c)) * msPerHour + int (snd (c_startTime c)) * msPerMinute
   \<and> snd (submitAttendance e (d\<lparr> createClasses := map (c_date_update f) (createClasses d) \<rparr>) rq)
       = snd (submitAttendance e d rq)
   \<and> attendances (fst (submitAttendance e
         (d\<lparr> createClasses := map (c_date_update f) (createClasses d) \<rparr>) rq))
       = attendances (fst (submitAttendance e d rq))
   \<and> (findStudent d (rq_rollNumber rq) = Some st
        \<and> findClassByCode d (rq_classCode rq) = Some c
        \<and> findLocation e d (rq_className rq) = Some g
        \<and> \<not> distanceOf e rq g > g_radius g
        \<and> beaconAccepted rq g
        \<and> existingToday e d rq c = None
        \<and> dayOf (localZone e) (startClock e) = dayOf (localZone e) (now e)
        \<and> int (fst (c_startTime c)) * msPerHour + int (snd (c_startTime c)) * msPerMinute
            \<le> (now e + localZone e) mod msPerDay
        \<and> (now e + localZone e) mod msPerDay
            \<le> int (fst (c_startTime c)) * msPerHour + int (snd (c_startTime c)) * msPerMinute
                + 15 * msPerMinute
      \<longrightarrow> submitAttendance e d rq =
            (d\<lparr> attendances := attendances d @ [newAttendance e rq c] \<rparr>,
             Inr \<lparr> d_className = c_className c, d_subject = c_subject c,
                   d_date = todayOf e, d_time = now e \<rparr>))"
proof -
  have start: "classStartTimeOf e c =
      dayOf (localZone e) (startClock e) * msPerDay - localZone e
        + int (fst (c_startTime c)) * msPerHour + int (snd (c_startTime c)) * msPerMinute"
    by (simp add: classStartTimeOf_def setHours_def startOfDay_dayOf)
  have accept: "submitAttendance e d rq =
            (d\<lparr> attendances := attendances d @ [newAttendance e rq c] \<rparr>,
             Inr \<lparr> d_className = c_className c, d_subject = c_subject c,
                   d_date = todayOf e, d_time = now e \<rparr>)"
    if st: "findStudent d (rq_rollNumber rq) = Some st"
      and c: "findClassByCode d (rq_classCode rq) = Some c"
      and g: "findLocation e d (rq_className rq) = Some g"
      and near: "\<not> distanceOf e rq g > g_radius g"
      and acc: "beaconAccepted rq g"
      and none: "existingToday e d rq c = None"
      and day: "dayOf (localZone e) (startClock e) = dayOf (localZone e) (now e)"
      and lo: "int (fst (c_startTime c)) * msPerHour + int (snd (c_startTime c)) * msPerMinute
            \<le> (now e + localZone e) mod msPerDay"
      and hi: "(now e + localZone e) mod msPerDay
            \<le> int (fst (c_startTime c)) * msPerHour + int (snd (c_startTime c)) * msPerMinute
                + 15 * msPerMinute"
  proof -
    have "now e = startOfDay (localZone e) (now e) + (now e + localZone e) mod msPerDay"
      by (simp add: startOfDay_def)
    then have n: "now e = dayOf (localZone e) (now e) * msPerDay - localZone e
        + (now e + localZone e) mod msPerDay"
      by (simp add: startOfDay_dayOf)
    have "classStartTimeOf e c \<le> now e"
      using lo n unfolding start day by linarith
    moreover have "now e \<le> classStartTimeOf e c + 15 * msPerMinute"
      using hi n unfolding start day by linarith
    ultimately show ?thesis
      using none by (simp add: submit_in_window[OF st c g near acc])
  qed
  show ?thesis
    using start submit_redated[of e f d rq] accept by blast
qed


theorem C10_stored_date_ignored_witness:
  "c_date exClass \<noteq> todayOf (exEnvAt 1704684900000)
   \<and> c_date exClass \<noteq> dayOf (localZone (exEnvAt 1704684900000)) 1704684900000
   \<and> (\<exists>ok. snd (submitAttendance (exEnvAt 1704684900000) exStore exSubmission) = Inr ok)
   \<and> classStartTimeOf (exEnvAt 1704684900000) exClass = 1704684600000"
proof -
  let ?e = "exEnvAt 1704684900000"
  have other: "c_date exClass \<noteq> todayOf ?e"
    "c_date exClass \<noteq> dayOf (localZone ?e) 1704684900000"
    by code_simp+
  have none: "existingToday ?e exStore exSubmission exClass = None"
    by (simp add: existingToday_def findAttendance_def exStore_def)
  have day: "dayOf (localZone ?e) (startClock ?e) = dayOf (localZone ?e) (now ?e)"
    by code_simp
  have lo: "int (fst (c_startTime exClass)) * msPerHour + int (snd (c_startTime exClass)) * msPerMinute
            \<le> (now ?e + localZone ?e) mod msPerDay"
    by code_simp
  have hi: "(now ?e + localZone ?e) mod msPerDay
            \<le> int (fst (c_startTime exClass)) * msPerHour
                + int (snd (c_startTime exClass)) * msPerMinute + 15 * msPerMinute"
    by code_simp
  have vals: "dayOf (localZone ?e) (startClock ?e) * msPerDay - localZone ?e
        + int (fst (c_startTime exClass)) * msPerHour
        + int (snd (c_startTime exClass)) * msPerMinute = 1704684600000"
    by code_simp
  note t = C10_stored_date_ignored[where e = ?e and d = exStore and rq = exSubmission
      and st = exStudent and c = exClass and g = exLocation and f = "\<lambda>x. x"]
  have start: "classStartTimeOf ?e exClass = 1704684600000"
    using t[THEN conjunct1] vals by simp
  have "submitAttendance ?e exStore exSubmission =
       (exStore\<lparr> attendances := attendances exStore @ [newAttendance ?e exSubmission exClass] \<rparr>,
        Inr \<lparr> d_className = c_className exClass, d_subject = c_subject exClass,
              d_date = todayOf ?e, d_time = now ?e \<rparr>)"
    using t[THEN conjunct2, THEN conjunct2, THEN conjunct2] ex_lookups(1,2,5) ex_lookups(3,4)[of 1704684900000]
      none day lo hi
    by blast
  then have "\<exists>ok. snd (submitAttendance ?e exStore exSubmission) = Inr ok"
    by simp
  then show ?thesis using other start by simp
qed

section \<open>Two records of one student, class, subject and day\<close>

text \<open>
  Claim C2. The claim is that, under sequential execution, the store never holds two
  attendance records of one roll number, class name, subject and calendar day, and that
  a submission repeated after a success always fails at the duplicate gate. The
  duplicate lookup of \<^verbatim>\<open>submitAttendance\<close> ranges over the UTC day of \<open>now\<close>, while
  the window of the class is laid on the server's local day. The theorem runs the
  handler on a server in the zone of Kolkata with a class that starts at 05:20 (23:50
  UTC): the same submission at 23:55 UTC and again at 00:02 UTC lies in one window and
  in one day of Kolkata, 2024-01-02 (day 19724), but in two UTC days. Both submissions
  succeed, and the store, which had at most one record per key, ends with two records of
  the same key.
\<close>

theorem C2_two_records_one_day:
  "oneRecordPerDay exDawnStore
   \<and> handle (exEnvAt 1704153300000) exDawnStore (SubmitAttendance exSubmission)
       = (exDawnStore\<lparr> attendances :=
            [newAttendance (exEnvAt 1704153300000) exSubmission exDawnClass] \<rparr>,
          SubmitResult (Inr \<lparr> d_className = ''CS101'', d_subject = ''Algorithms'',
            d_date = 19723, d_time = 1704153300000 \<rparr>))
   \<and> handle (exEnvAt 1704153720000)
         (exDawnStore\<lparr> attendances :=
            [newAttendance (exEnvAt 1704153300000) exSubmission exDawnClass] \<rparr>)
         (SubmitAttendance exSubmission)
       = (exDawnStore\<lparr> attendances :=
            [newAttendance (exEnvAt 1704153300000) exSubmission exDawnClass,
             newAttendance (exEnvAt 1704153720000) exSubmission exDawnClass] \<rparr>,
          SubmitResult (Inr \<lparr> d_className = ''CS101'', d_subject = ''Algorithms'',
            d_date = 19724, d_time = 1704153720000 \<rparr>))
   \<and> recordKey (newAttendance (exEnvAt 1704153300000) exSubmission exDawnClass)
       = (''R1'', ''CS101'', ''Algorithms'', 19724)
   \<and> recordKey (newAttendance (exEnvAt 1704153720000) exSubmission exDawnClass)
       = (''R1'', ''CS101'', ''Algorithms'', 19724)
   \<and> \<not> oneRecordPerDay
         (run exDawnStore
            [(exEnvAt 1704153300000, SubmitAttendance exSubmission),
             (exEnvAt 1704153720000, SubmitAttendance exSubmission)])"
  by code_simp

section \<open>The time zones of the two handlers\<close>

text \<open>
  Claim C7. The claim is that both handlers derive today's date and the start instant
  of a class in one and the same time zone. \<^verbatim>\<open>fetchNotifications\<close> works in the zone
  of Kolkata throughout; \<^verbatim>\<open>submitAttendance\<close> takes the date from
  \<^verbatim>\<open>toISOString\<close>, that is in UTC, and the start instant from \<^verbatim>\<open>setHours\<close>, that
  is in the zone of the server. The theorem evaluates both handlers' computations: at
  2024-01-01 20:00 UTC the date is day 19724 (2024-01-02) for \<^verbatim>\<open>fetchNotifications\<close>
  and day 19723 (2024-01-01) for \<^verbatim>\<open>submitAttendance\<close>; and for the class of the
  example, stored for 2024-01-02 at 09:00, the start instant is 03:30 UTC for
  \<^verbatim>\<open>fetchNotifications\<close> and, on a server whose zone is UTC, 09:00 UTC for
  \<^verbatim>\<open>submitAttendance\<close>.
\<close>

theorem C7_zones_differ:
  "formattedDateOf (exEnvAt 1704139200000) = 19724
   \<and> todayOf (exEnvAt 1704139200000) = 19723
   \<and> classDateOf exClass = 1704166200000
   \<and> classStartTimeOf (exEnv\<lparr> localZone := 0 \<rparr>) exClass = 1704186000000"
  by code_simp

end
